theory Spec2Isabelle
  imports Main "HOL-Library.Sublist"
begin

section \<open>Data model (types/index.ts)\<close>

text \<open>
  The interfaces of the frontend's type module. A TypeScript string-literal union is a
  datatype, an interface a record, an optional field an \<open>option\<close>. Field names that
  occur in several interfaces (or clash with a HOL constant, as \<open>id\<close> does) carry a
  short prefix naming their interface. The two \<open>number\<close> fields of a task hold whole
  numbers only (a file size in bytes, a percentage set from integer literals) and are
  integers here.
\<close>

datatype task_status = Queued | Processing | Review_ready | Completed | Failed

record ProcessingTask =
  task_id :: string
  workspaceId :: string
  filename :: string
  fileSize :: int
  status :: task_status
  progress :: int
  logs :: "string list"
  startTime :: string

record Speaker =
  speaker_id :: string
  speaker_name :: string
  speaker_role :: string
  avatar :: string

datatype sentiment_kind = Neutral | Positive | Negative | Concerned

record TranscriptSegment =
  segment_id :: string
  speakerId :: string
  timestamp :: string
  text_of :: string
  sentiment :: "sentiment_kind option"

datatype action_status = Pending | In_progress | Action_completed

datatype priority_kind = High | Medium | Low

record ActionItem =
  action_id :: string
  action_description :: string
  owner :: string
  dueDate :: string
  action_state :: action_status
  priority :: "priority_kind option"
  action_relatedSegmentId :: string
  reminder :: "string option"

record KeyDecision =
  decision_id :: string
  decision_description :: string
  decision_relatedSegmentId :: string

record MeetingSummary =
  executiveSummary :: "string option"
  detailedMinutes :: "string option"
  decisions :: "KeyDecision list option"
  actionItems :: "ActionItem list option"

datatype meeting_status =
  Uploaded | Transcribing | Summarizing | Meeting_completed | Meeting_failed | Scheduled

record Meeting =
  meeting_id :: string
  meeting_workspaceId :: string
  title :: string
  date :: string
  duration :: string
  participants :: "Speaker list option"
  tags :: "string list option"
  transcript :: "TranscriptSegment list option"
  summary :: "MeetingSummary option"
  hubSpotSynced :: "bool option"
  meeting_state :: meeting_status
  template :: "string option"

section \<open>The mock data service (services/api/mockData.ts)\<close>

subsection \<open>Module state and the browser's timers\<close>

text \<open>
  \<open>createTask\<close> registers three \<open>setTimeout\<close> callbacks, each closing over the id of
  the task it created. A pending callback is a record of its due time (the
  \<open>Date.now()\<close> of the registration plus the delay), the captured id and which of the
  three bodies it runs.
\<close>

datatype callback = Start_transcription | Half_way | Ready_for_review

record timer =
  due :: nat
  target :: string
  body :: callback

text \<open>
  The module keeps two mutable arrays, \<open>mockTasks\<close> and \<open>mockMeetings\<close>. The state of
  the model adds what the browser keeps for the module: the pending timers in
  registration order and the last value of the millisecond clock that was observed.
\<close>

record state =
  mockTasks :: "ProcessingTask list"
  mockMeetings :: "Meeting list"
  timers :: "timer list"
  clock :: nat

definition MOCK_SPEAKERS :: "Speaker list" where
  "MOCK_SPEAKERS =
    [\<lparr>speaker_id = ''u1'', speaker_name = ''Christina Lau'', speaker_role = ''Product Lead'',
       avatar = ''https://picsum.photos/id/1012/200/200''\<rparr>,
     \<lparr>speaker_id = ''alex'', speaker_name = ''Alex Wong'', speaker_role = ''CTO'',
       avatar = ''https://picsum.photos/id/1025/200/200''\<rparr>,
     \<lparr>speaker_id = ''sarah'', speaker_name = ''Sarah Ye'', speaker_role = ''Product Manager'',
       avatar = ''https://picsum.photos/id/1011/200/200''\<rparr>]"

text \<open>
  The two seeded tasks. Their \<open>startTime\<close> is computed from the clock when the module
  is loaded (\<open>new Date(Date.now() - 15 * 60 * 1000).toISOString()\<close>), so both strings
  are parameters.
\<close>

definition seed_tasks :: "string \<Rightarrow> string \<Rightarrow> ProcessingTask list" where
  "seed_tasks start1 start2 =
    [\<lparr>task_id = ''task_1'', workspaceId = ''ws_1'',
       filename = ''Q3_Product_Review_2024.m4a'', fileSize = 45 * 1024 * 1024,
       status = Review_ready, progress = 100,
       logs = [''[10:30:15] File uploaded successfully'',
               ''[10:30:20] Starting transcription...'',
               ''[10:35:45] Transcription 50% complete'',
               ''[10:41:20] Transcription complete'',
               ''[10:41:25] Starting summarization...'',
               ''[10:43:10] Summarization complete'',
               ''[10:43:15] Ready for review''],
       startTime = start1\<rparr>,
     \<lparr>task_id = ''task_2'', workspaceId = ''ws_1'',
       filename = ''Weekly_Sync_Meeting.m4a'', fileSize = 28 * 1024 * 1024,
       status = Processing, progress = 65,
       logs = [''[14:20:10] File uploaded successfully'',
               ''[14:20:15] Starting transcription...'',
               ''[14:25:30] Transcription 30% complete'',
               ''[14:30:45] Transcription 60% complete'',
               ''[14:32:20] Transcription 65% complete...''],
       startTime = start2\<rparr>]"

text \<open>
  The one seeded meeting. Its transcript mixes Cantonese and English; a \<open>string\<close> is a list
  of bytes, and the text outside ASCII is written as the bytes of its UTF-8 encoding.
\<close>

definition seed_meetings :: "Meeting list" where
  "seed_meetings =
    [\<lparr>meeting_id = ''m_20241024_q3_review'',
      meeting_workspaceId = ''ws_1'',
      title = ''Q3 Product Roadmap Review & Tech Infra'',
      date = ''2024-10-24T10:30:00'',
      duration = ''45 mins'',
      participants = Some MOCK_SPEAKERS,
      tags = Some [''Strategic'', ''Engineering'', ''Budget''],
      transcript = Some
        [\<lparr>segment_id = ''seg_1'', speakerId = ''sarah'', timestamp = ''00:05'',
          text_of =
            ''Hello everyone, let'' @ [CHR 0x27] @ ''s start. ''
            @ [CHR 0xE4, CHR 0xBB, CHR 0x8A, CHR 0xE6, CHR 0x97, CHR 0xA5, CHR 0xE4, CHR 0xB8,
             CHR 0xBB, CHR 0xE8, CHR 0xA6, CHR 0x81, CHR 0xE9, CHR 0x81, CHR 0x8E, CHR 0xE4, CHR 0xB8,
             CHR 0x80, CHR 0xE6, CHR 0xAC, CHR 0xA1]
            @ '' Q3 '' @ [CHR 0xE5, CHR 0x98, CHR 0x85] @ '' Roadmap ''
            @ [CHR 0xE5, CHR 0x90, CHR 0x8C, CHR 0xE5, CHR 0x9F, CHR 0x8B] @ '' review ''
            @ [CHR 0xE8, CHR 0xBF, CHR 0x94, CHR 0xE4, CHR 0xB8, CHR 0x8A, CHR 0xE5, CHR 0x80,
             CHR 0x8B, CHR 0xE7, CHR 0xA6, CHR 0xAE, CHR 0xE6, CHR 0x8B, CHR 0x9C, CHR 0xE5, CHR 0x80,
             CHR 0x8B]
            @ '' usage spike ''
            @ [CHR 0xE5, CHR 0x98, CHR 0x85, CHR 0xE5, CHR 0x95, CHR 0x8F, CHR 0xE9, CHR 0xA1,
             CHR 0x8C, CHR 0xE3, CHR 0x80, CHR 0x82],
          sentiment = Some Neutral\<rparr>,
         \<lparr>segment_id = ''seg_2'', speakerId = ''alex'', timestamp = ''00:24'',
          text_of =
            ''Right. '' @ [CHR 0xE5, CHR 0x85, CHR 0xB3, CHR 0xE4, CHR 0xBA, CHR 0x8E]
            @ '' usage spike ''
            @ [CHR 0xE5, CHR 0x97, CHR 0xB0, CHR 0xE5, CHR 0xBA, CHR 0xA6, CHR 0xEF, CHR 0xBC, CHR 0x8C]
            @ ''Backend check '' @ [CHR 0xE9, CHR 0x81, CHR 0x8E] @ '' logs''
            @ [CHR 0xEF, CHR 0xBC, CHR 0x8C, CHR 0xE7, CHR 0x99, CHR 0xBC, CHR 0xE7, CHR 0x8F,
             CHR 0xBE, CHR 0xE4, CHR 0xBF, CHR 0x82]
            @ '' Monday morning 9''
            @ [CHR 0xE9, CHR 0xBB, CHR 0x9E, CHR 0xE5, CHR 0xB9, CHR 0xBE, CHR 0xE5, CHR 0x97,
             CHR 0xB0, CHR 0xE9, CHR 0x98, CHR 0xB5, CHR 0xEF, CHR 0xBC, CHR 0x8C]
            @ ''Concurrent users ''
            @ [CHR 0xE7, CHR 0xAA, CHR 0x81, CHR 0xE7, CHR 0x84, CHR 0xB6, CHR 0xE5, CHR 0x8D,
             CHR 0x87, CHR 0xE5, CHR 0x92, CHR 0x97]
            @ '' 3 ''
            @ [CHR 0xE5, CHR 0x80, CHR 0x8D, CHR 0xE3, CHR 0x80, CHR 0x82, CHR 0xE6, CHR 0x88,
             CHR 0x91, CHR 0xE5, CHR 0x93, CHR 0x8B, CHR 0xE5, CHR 0x80, CHR 0x8B]
            @ '' AWS RDS instance ''
            @ [CHR 0xE9, CHR 0xA1, CHR 0xB6, CHR 0xE5, CHR 0x94, CHR 0x94, CHR 0xE9, CHR 0xA1,
             CHR 0xBA, CHR 0xEF, CHR 0xBC, CHR 0x8C]
            @ ''latency ''
            @ [CHR 0xE9, CHR 0xA3, CHR 0x99, CHR 0xE5, CHR 0x88, CHR 0xB0, CHR 0xE5, CHR 0x8E, CHR 0xBB]
            @ '' 2000ms'' @ [CHR 0xE3, CHR 0x80, CHR 0x82],
          sentiment = Some Concerned\<rparr>,
         \<lparr>segment_id = ''seg_3'', speakerId = ''u1'', timestamp = ''00:45'',
          text_of =
            ''Okay, ''
            @ [CHR 0xE5, CHR 0x92, CHR 0x81, CHR 0xE6, CHR 0x88, CHR 0x91, CHR 0xE5, CHR 0x93,
             CHR 0x8B, CHR 0xE6, CHR 0x9C, CHR 0x89, CHR 0xE5, CHR 0x92, CHR 0xA9]
            @ '' solution''
            @ [CHR 0xEF, CHR 0xBC, CHR 0x9F, CHR 0xE4, CHR 0xBF, CHR 0x82, CHR 0xE5, CHR 0x92,
             CHR 0xAA, CHR 0xE8, CHR 0xA6, CHR 0x81]
            @ '' scale up '' @ [CHR 0xE5, CHR 0x80, CHR 0x8B] @ '' database''
            @ [CHR 0xEF, CHR 0xBC, CHR 0x9F],
          sentiment = Some Neutral\<rparr>,
         \<lparr>segment_id = ''seg_4'', speakerId = ''alex'', timestamp = ''01:02'',
          text_of =
            [CHR 0xE6, CHR 0x88, CHR 0x91, CHR 0xE5, CHR 0x93, CHR 0x8B, CHR 0xE6, CHR 0x9C, CHR 0x89,
             CHR 0xE5, CHR 0x85, CHR 0xA9, CHR 0xE5, CHR 0x80, CHR 0x8B]
            @ '' options''
            @ [CHR 0xEF, CHR 0xBC, CHR 0x9A, CHR 0xE4, CHR 0xB8, CHR 0x80, CHR 0xE5, CHR 0x80,
             CHR 0x8B, CHR 0xE4, CHR 0xBF, CHR 0x82]
            @ '' Read Replicas''
            @ [CHR 0xEF, CHR 0xBC, CHR 0x8C, CHR 0xE5, CHR 0x8F, CHR 0xA6, CHR 0xE4, CHR 0xB8,
             CHR 0x80, CHR 0xE5, CHR 0x80, CHR 0x8B, CHR 0xE4, CHR 0xBF, CHR 0x82]
            @ '' Sharding'' @ [CHR 0xE3, CHR 0x80, CHR 0x82] @ ''Read Replicas ''
            @ [CHR 0xE6, CHR 0xAF, CHR 0x94, CHR 0xE8, CHR 0xBC, CHR 0x83, CHR 0xE7, CHR 0xB0,
             CHR 0xA1, CHR 0xE5, CHR 0x96, CHR 0xAE, CHR 0xEF, CHR 0xBC, CHR 0x8C, CHR 0xE5, CHR 0x8F,
             CHR 0xAF, CHR 0xE4, CHR 0xBB, CHR 0xA5]
            @ '' immediate fix''
            @ [CHR 0xEF, CHR 0xBC, CHR 0x8C, CHR 0xE4, CHR 0xBD, CHR 0x86, CHR 0xE4, CHR 0xBF, CHR 0x82]
            @ '' Sharding '' @ [CHR 0xE5, CHR 0xB0, CHR 0xB1] @ '' long-term solution''
            @ [CHR 0xE3, CHR 0x80, CHR 0x82],
          sentiment = Some Neutral\<rparr>],
      summary = Some
        \<lparr>executiveSummary = Some
           (''The team discussed the Q3 product roadmap and addressed a recent system latency ''
            @ ''spike. The spike was caused by a 3x increase in concurrent users on Monday ''
            @ ''morning, pushing AWS RDS latency to 2000ms. Two solutions were proposed: Read ''
            @ ''Replicas for immediate relief, and Sharding for long-term scalability.''),
         detailedMinutes = None,
         decisions = Some
           [\<lparr>decision_id = ''dec_1'',
              decision_description =
                ''Implement AWS RDS Read Replicas as immediate solution for latency issues'',
              decision_relatedSegmentId = ''seg_4''\<rparr>,
            \<lparr>decision_id = ''dec_2'',
              decision_description = ''Keep Smart Search feature release on schedule for Q3'',
              decision_relatedSegmentId = ''seg_1''\<rparr>],
         actionItems = Some
           [\<lparr>action_id = ''act_1'',
              action_description = ''Set up AWS RDS Read Replicas by next Wednesday'',
              owner = ''Alex Wong'', dueDate = ''2024-10-30'', action_state = In_progress,
              priority = Some High, action_relatedSegmentId = ''seg_4'', reminder = None\<rparr>,
            \<lparr>action_id = ''act_2'',
              action_description = ''Reply to customer support inquiry about feature request'',
              owner = ''Sarah Ye'', dueDate = ''2024-10-26'', action_state = Pending,
              priority = Some Medium, action_relatedSegmentId = ''seg_1'', reminder = None\<rparr>]\<rparr>,
      hubSpotSynced = Some False,
      meeting_state = Meeting_completed,
      template = Some ''Product Review''\<rparr>]"

text \<open>
  The state when the module has been loaded at clock value \<open>c\<close>. The module seeds
  \<open>seed_meetings\<close>; no operation on tasks reads a stored meeting, and the properties of
  the runs hold whatever the meetings at the start, so they are an argument.
\<close>

definition initial_state :: "Meeting list \<Rightarrow> string \<Rightarrow> string \<Rightarrow> nat \<Rightarrow> state" where
  "initial_state meetings start1 start2 c =
    \<lparr>mockTasks = seed_tasks start1 start2, mockMeetings = meetings,
     timers = [], clock = c\<rparr>"

subsection \<open>Template literals\<close>

text \<open>
  \<open>`task_${Date.now()}`\<close> prints the clock in decimal. \<open>Date.now()\<close> counts the
  milliseconds since 1970, a natural number.
\<close>

definition digit :: "nat \<Rightarrow> char" where
  "digit d = char_of (48 + d)"

fun show_nat :: "nat \<Rightarrow> string" where
  "show_nat n = (if n < 10 then [digit n] else show_nat (n div 10) @ [digit (n mod 10)])"

declare show_nat.simps [simp del]

definition task_id_at :: "nat \<Rightarrow> string" where
  "task_id_at now = ''task_'' @ show_nat now"

definition meeting_id_at :: "nat \<Rightarrow> string" where
  "meeting_id_at now = ''m_'' @ show_nat now"

definition log_line :: "string \<Rightarrow> string \<Rightarrow> string" where
  "log_line locale_time msg = ''['' @ locale_time @ ''] '' @ msg"

subsection \<open>Tasks\<close>

definition getTasks :: "state \<Rightarrow> string \<Rightarrow> ProcessingTask list" where
  "getTasks s ws = filter (\<lambda>t. workspaceId t = ws) (mockTasks s)"

definition getTask :: "state \<Rightarrow> string \<Rightarrow> ProcessingTask option" where
  "getTask s i = find (\<lambda>t. task_id t = i) (mockTasks s)"

text \<open>
  \<open>createTask\<close> reads the clock once for the id (\<open>now\<close>) and twice through
  \<open>new Date()\<close>: \<open>locale_time\<close> is the result of \<open>toLocaleTimeString()\<close>, \<open>iso_time\<close> that
  of \<open>toISOString()\<close>. It pushes the new task, registers the three callbacks and returns
  the task.
\<close>

definition new_task :: "nat \<Rightarrow> string \<Rightarrow> string \<Rightarrow> string \<Rightarrow> string \<Rightarrow> int \<Rightarrow> ProcessingTask" where
  "new_task now locale_time iso_time ws fname fsize =
    \<lparr>task_id = task_id_at now, workspaceId = ws, filename = fname, fileSize = fsize,
     status = Queued, progress = 0,
     logs = [log_line locale_time ''File uploaded successfully''],
     startTime = iso_time\<rparr>"

definition createTask ::
  "nat \<Rightarrow> string \<Rightarrow> string \<Rightarrow> string \<Rightarrow> string \<Rightarrow> int \<Rightarrow> state \<Rightarrow> ProcessingTask \<times> state" where
  "createTask now locale_time iso_time ws fname fsize s =
    (let newTask = new_task now locale_time iso_time ws fname fsize in
     (newTask,
      s\<lparr>mockTasks := mockTasks s @ [newTask],
        timers := timers s @
          [\<lparr>due = now + 2000, target = task_id newTask, body = Start_transcription\<rparr>,
           \<lparr>due = now + 8000, target = task_id newTask, body = Half_way\<rparr>,
           \<lparr>due = now + 15000, target = task_id newTask, body = Ready_for_review\<rparr>]\<rparr>))"

text \<open>
  Each callback looks its task up with \<open>mockTasks.find\<close> and, when there is one, mutates
  that object in place: the first task of the array with the captured id changes, the
  array keeps its length and order.
\<close>

fun update_first ::
  "(ProcessingTask \<Rightarrow> bool) \<Rightarrow> (ProcessingTask \<Rightarrow> ProcessingTask) \<Rightarrow> ProcessingTask list
    \<Rightarrow> ProcessingTask list" where
  "update_first P f [] = []"
| "update_first P f (t # ts) = (if P t then f t # ts else t # update_first P f ts)"

text \<open>
  The third callback calls \<open>new Date().toLocaleTimeString()\<close> four times, the others
  once; a callback receives the four readings and uses as many as its body has.
\<close>

record locale_times =
  reading1 :: string
  reading2 :: string
  reading3 :: string
  reading4 :: string

fun run_body :: "callback \<Rightarrow> locale_times \<Rightarrow> ProcessingTask \<Rightarrow> ProcessingTask" where
  "run_body Start_transcription r t =
     t\<lparr>status := Processing, progress := 10,
       logs := logs t @ [log_line (reading1 r) ''Starting transcription...'']\<rparr>"
| "run_body Half_way r t =
     t\<lparr>progress := 50,
       logs := logs t @ [log_line (reading1 r) ''Transcription 50% complete'']\<rparr>"
| "run_body Ready_for_review r t =
     t\<lparr>progress := 100, status := Review_ready,
       logs := logs t @ [log_line (reading1 r) ''Transcription complete'',
                         log_line (reading2 r) ''Starting summarization...'',
                         log_line (reading3 r) ''Summarization complete'',
                         log_line (reading4 r) ''Ready for review'']\<rparr>"

definition run_timer :: "timer \<Rightarrow> locale_times \<Rightarrow> state \<Rightarrow> state" where
  "run_timer tm r s =
    s\<lparr>mockTasks := update_first (\<lambda>t. task_id t = target tm) (run_body (body tm) r) (mockTasks s)\<rparr>"

subsection \<open>Finalize\<close>

datatype error = Error string

record finalize_data =
  data_title :: string
  data_template :: string
  data_tags :: "string list"

definition new_meeting :: "nat \<Rightarrow> string \<Rightarrow> ProcessingTask \<Rightarrow> finalize_data \<Rightarrow> Meeting" where
  "new_meeting now iso_time task d =
    \<lparr>meeting_id = meeting_id_at now,
     meeting_workspaceId = workspaceId task,
     title = data_title d,
     date = iso_time,
     duration = ''45 mins'',
     participants = Some MOCK_SPEAKERS,
     tags = Some (data_tags d),
     transcript = Some
       [\<lparr>segment_id = ''seg_1'', speakerId = ''u1'', timestamp = ''00:00'',
          text_of = ''This is a sample transcript generated from the uploaded audio file.'',
          sentiment = Some Neutral\<rparr>],
     summary = Some
       \<lparr>executiveSummary = Some (''Meeting summary for '' @ data_title d),
        detailedMinutes = None, decisions = Some [], actionItems = Some []\<rparr>,
     hubSpotSynced = Some False,
     meeting_state = Meeting_completed,
     template = Some (data_template d)\<rparr>"

text \<open>
  \<open>finalizeTask\<close> throws before it changes anything when no task has the id; a throw
  is the \<open>Inl\<close> result and leaves the caller with the state it had.
\<close>

definition finalizeTask ::
  "nat \<Rightarrow> string \<Rightarrow> string \<Rightarrow> finalize_data \<Rightarrow> state \<Rightarrow> error + (string \<times> state)" where
  "finalizeTask now iso_time taskId d s =
    (case find (\<lambda>t. task_id t = taskId) (mockTasks s) of
       None \<Rightarrow> Inl (Error ''Task not found'')
     | Some task \<Rightarrow>
         (let newMeeting = new_meeting now iso_time task d in
          Inr (meeting_id newMeeting,
               s\<lparr>mockMeetings := mockMeetings s @ [newMeeting],
                 mockTasks := filter (\<lambda>t. task_id t \<noteq> taskId) (mockTasks s)\<rparr>)))"

subsection \<open>Meetings\<close>

definition getMeetings :: "state \<Rightarrow> string \<Rightarrow> Meeting list" where
  "getMeetings s ws = filter (\<lambda>m. meeting_workspaceId m = ws) (mockMeetings s)"

definition getMeeting :: "state \<Rightarrow> string \<Rightarrow> Meeting option" where
  "getMeeting s i = find (\<lambda>m. meeting_id m = i) (mockMeetings s)"

definition createMeetingFromUpload ::
  "nat \<Rightarrow> string \<Rightarrow> string \<Rightarrow> string \<Rightarrow> string \<Rightarrow> int \<Rightarrow> state \<Rightarrow> string \<times> state" where
  "createMeetingFromUpload now locale_time iso_time ws fname fsize s =
    (case createTask now locale_time iso_time ws fname fsize s of (task, s') \<Rightarrow> (task_id task, s'))"

section \<open>The tasks API in mock mode (services/api/tasks.ts)\<close>

text \<open>
  \<open>ENABLE_MOCK_API\<close> comes from a constants module and is a parameter. With the flag
  off the call goes to the HTTP client, whose answer is the parameter \<open>backend\<close>.
\<close>

definition tasksApi_get ::
  "bool \<Rightarrow> (string \<Rightarrow> error + ProcessingTask) \<Rightarrow> state \<Rightarrow> string \<Rightarrow> error + ProcessingTask" where
  "tasksApi_get ENABLE_MOCK_API backend s i =
    (if ENABLE_MOCK_API
     then (case getTask s i of None \<Rightarrow> Inl (Error ''Task not found'') | Some task \<Rightarrow> Inr task)
     else backend i)"

definition tasksApi_list ::
  "bool \<Rightarrow> (string \<Rightarrow> error + ProcessingTask list) \<Rightarrow> state \<Rightarrow> string
    \<Rightarrow> error + ProcessingTask list" where
  "tasksApi_list ENABLE_MOCK_API backend s ws =
    (if ENABLE_MOCK_API then Inr (getTasks s ws) else backend ws)"

section \<open>Runs of the service\<close>

text \<open>
  What can happen to the module after it is loaded: a caller creates a task, a caller
  finalizes a task, or the browser runs a pending timer callback. Every event carries
  the clock value at which it happens and the time strings the code reads.
\<close>

datatype event =
    Create nat string string string string int
  | Finalize nat string string finalize_data
  | Fire nat nat locale_times

definition remove_nth :: "nat \<Rightarrow> 'a list \<Rightarrow> 'a list" where
  "remove_nth k xs = take k xs @ drop (Suc k) xs"

text \<open>
  \<open>Fire now k r\<close> runs the \<open>k\<close>-th pending timer and takes it off the list. A finalize
  that throws changes nothing but the clock.
\<close>

fun step :: "event \<Rightarrow> state \<Rightarrow> state" where
  "step (Create now locale_time iso_time ws fname fsize) s =
     (snd (createTask now locale_time iso_time ws fname fsize s))\<lparr>clock := now\<rparr>"
| "step (Finalize now iso_time taskId d) s =
     (case finalizeTask now iso_time taskId d s of
        Inl e \<Rightarrow> s\<lparr>clock := now\<rparr>
      | Inr (mid, s') \<Rightarrow> s'\<lparr>clock := now\<rparr>)"
| "step (Fire now k r) s =
     (run_timer (timers s ! k) r s)\<lparr>timers := remove_nth k (timers s), clock := now\<rparr>"

text \<open>
  The assumptions on the browser: the clock never runs backwards; a timer runs no
  earlier than its due time; and of the pending timers one with the least due time
  runs first (which of several with the same due time is left open).
\<close>

fun enabled :: "event \<Rightarrow> state \<Rightarrow> bool" where
  "enabled (Create now locale_time iso_time ws fname fsize) s = (clock s \<le> now)"
| "enabled (Finalize now iso_time taskId d) s = (clock s \<le> now)"
| "enabled (Fire now k r) s =
     (clock s \<le> now \<and> k < length (timers s) \<and> due (timers s ! k) \<le> now
      \<and> list_all (\<lambda>tm. due (timers s ! k) \<le> due tm) (timers s))"

text \<open>
  The module is loaded at some clock value \<open>c\<close>. The seeded ids \<open>task_1\<close> and \<open>task_2\<close>
  are the ids \<open>createTask\<close> generates at clock values 1 and 2, the first two
  milliseconds of 1970; the module is loaded later than that.
\<close>

inductive reachable :: "state \<Rightarrow> bool" where
  loaded: "2 < c \<Longrightarrow> reachable (initial_state meetings start1 start2 c)"
| after: "reachable s \<Longrightarrow> enabled e s \<Longrightarrow> reachable (step e s)"

text \<open>
  How the task array after an event relates to the one before. Either tasks were only
  taken out, and those that remain are the objects they were; or every task is still
  at its index, under its id, and \<open>R\<close> relates what it was to what it is (tasks pushed
  by the event come after).
\<close>

definition tasks_step ::
  "(ProcessingTask \<Rightarrow> ProcessingTask \<Rightarrow> bool) \<Rightarrow> ProcessingTask list \<Rightarrow> ProcessingTask list \<Rightarrow> bool" where
  "tasks_step R old new \<longleftrightarrow>
     subseq new old
     \<or> list_all2 (\<lambda>a b. task_id b = task_id a \<and> R a b) old (take (length old) new)"

definition log_appended :: "ProcessingTask \<Rightarrow> ProcessingTask \<Rightarrow> bool" where
  "log_appended a b \<longleftrightarrow>
     prefix (logs a) (logs b) \<and> (status b \<noteq> status a \<longrightarrow> length (logs a) < length (logs b))"

definition progress_kept :: "ProcessingTask \<Rightarrow> ProcessingTask \<Rightarrow> bool" where
  "progress_kept a b \<longleftrightarrow> progress a \<le> progress b"

definition status_edge :: "ProcessingTask \<Rightarrow> ProcessingTask \<Rightarrow> bool" where
  "status_edge a b \<longleftrightarrow>
     status b = status a
     \<or> (status a = Queued \<and> status b = Processing)
     \<or> (status a = Processing \<and> status b = Review_ready)"

section \<open>The state machine of the specification\<close>

text \<open>
  The six states and the directed edges of the specification's section 4.3, written
  from its words, to compare the code's status changes with.
\<close>

datatype spec_state = QUEUED | TRANSCRIBING | SUMMARIZING | REVIEW_READY | COMPLETED | FAILED

fun spec_terminal :: "spec_state \<Rightarrow> bool" where
  "spec_terminal COMPLETED = True"
| "spec_terminal FAILED = True"
| "spec_terminal _ = False"

definition spec_edge :: "spec_state \<Rightarrow> spec_state \<Rightarrow> bool" where
  "spec_edge a b \<longleftrightarrow>
     (a, b) \<in> set [(QUEUED, TRANSCRIBING), (TRANSCRIBING, SUMMARIZING),
                    (SUMMARIZING, REVIEW_READY), (REVIEW_READY, COMPLETED)]
     \<or> (b = FAILED \<and> \<not> spec_terminal a)"

text \<open>
  A sequence of states follows the machine when each state is the one before it or
  comes from it by an edge.
\<close>

fun spec_path :: "spec_state list \<Rightarrow> bool" where
  "spec_path (a # b # rest) = ((a = b \<or> spec_edge a b) \<and> spec_path (b # rest))"
| "spec_path _ = True"

text \<open>
  The code has one status \<open>processing\<close> where the specification has two states. A
  reading of the code's statuses as states of the specification sends the four statuses
  it shares by name to themselves and \<open>processing\<close> to a state \<open>p\<close> to be chosen.
\<close>

fun as_spec_state :: "spec_state \<Rightarrow> task_status \<Rightarrow> spec_state" where
  "as_spec_state p Queued = QUEUED"
| "as_spec_state p Processing = p"
| "as_spec_state p Review_ready = REVIEW_READY"
| "as_spec_state p Completed = COMPLETED"
| "as_spec_state p Failed = FAILED"

definition all_spec_states :: "spec_state list" where
  "all_spec_states = [QUEUED, TRANSCRIBING, SUMMARIZING, REVIEW_READY, COMPLETED, FAILED]"

section \<open>Invariant of the runs\<close>

text \<open>
  Reading a decimal back, to show that different clock values print differently.
\<close>

definition digit_value :: "char \<Rightarrow> nat" where
  "digit_value c = of_char c - 48"

definition read_nat :: "string \<Rightarrow> nat" where
  "read_nat cs = foldl (\<lambda>a c. 10 * a + digit_value c) 0 cs"

text \<open>
  The delay each callback is registered with, and the progress it sets.
\<close>

fun delay :: "callback \<Rightarrow> nat" where
  "delay Start_transcription = 2000"
| "delay Half_way = 8000"
| "delay Ready_for_review = 15000"

fun cap :: "callback \<Rightarrow> int" where
  "cap Start_transcription = 10"
| "cap Half_way = 50"
| "cap Ready_for_review = 100"

text \<open>
  Every pending timer was registered by a \<open>createTask\<close> that ran no later than now, for
  the id generated at that moment.
\<close>

definition timers_ok :: "state \<Rightarrow> bool" where
  "timers_ok s \<longleftrightarrow>
     (\<forall>tm \<in> set (timers s). delay (body tm) \<le> due tm \<and> due tm - delay (body tm) \<le> clock s
        \<and> target tm = task_id_at (due tm - delay (body tm)))"

text \<open>
  A task whose id names the present or a future clock value has not been touched by a
  callback yet.
\<close>

definition fresh_ok :: "state \<Rightarrow> bool" where
  "fresh_ok s \<longleftrightarrow>
     (\<forall>t \<in> set (mockTasks s). \<forall>T \<ge> clock s. task_id t = task_id_at T \<longrightarrow> progress t = 0 \<and> status t = Queued)"

text \<open>
  A task is not ahead of a callback that is still pending for its id.
\<close>

definition pending_ok :: "state \<Rightarrow> bool" where
  "pending_ok s \<longleftrightarrow>
     (\<forall>t \<in> set (mockTasks s). 0 \<le> progress t \<and> progress t \<le> 100
        \<and> status t \<in> {Queued, Processing, Review_ready}
        \<and> (\<forall>tm \<in> set (timers s). target tm = task_id t \<longrightarrow>
              progress t \<le> cap (body tm) \<and> (body tm \<noteq> Ready_for_review \<longrightarrow> status t \<noteq> Review_ready)))"

text \<open>
  The task a lookup finds is queued only while its first callback is pending.
\<close>

definition queued_ok :: "state \<Rightarrow> bool" where
  "queued_ok s \<longleftrightarrow>
     (\<forall>i t. getTask s i = Some t \<and> status t = Queued \<longrightarrow>
        (\<exists>tm \<in> set (timers s). target tm = i \<and> body tm = Start_transcription))"

definition service_inv :: "state \<Rightarrow> bool" where
  "service_inv s \<longleftrightarrow> timers_ok s \<and> fresh_ok s \<and> pending_ok s \<and> queued_ok s"

section \<open>An example run\<close>

text \<open>
  The module is loaded on 2024-10-24 at 10:00:00 UTC; five seconds later a file is
  uploaded to workspace \<open>ws_1\<close>; its three callbacks run two, eight and fifteen seconds
  after that. In \<open>example_twins\<close> a second upload arrives in the millisecond of the
  first.
\<close>

definition example_data :: finalize_data where
  "example_data = \<lparr>data_title = ''Sync'', data_template = ''General'', data_tags = []\<rparr>"

definition readings :: "string \<Rightarrow> locale_times" where
  "readings t = \<lparr>reading1 = t, reading2 = t, reading3 = t, reading4 = t\<rparr>"

definition example_loaded :: state where
  "example_loaded =
     initial_state seed_meetings ''2024-10-24T09:45:00.000Z'' ''2024-10-24T09:48:00.000Z''
       1729764000000"

definition example_created :: state where
  "example_created =
     step (Create 1729764005000 ''10:00:05'' ''2024-10-24T10:00:05.000Z'' ''ws_1'' ''audio_1'' 1024)
       example_loaded"

definition example_started :: state where
  "example_started = step (Fire 1729764007000 0 (readings ''10:00:07'')) example_created"

definition example_half :: state where
  "example_half = step (Fire 1729764013000 0 (readings ''10:00:13'')) example_started"

definition example_ready :: state where
  "example_ready = step (Fire 1729764020000 0 (readings ''10:00:20'')) example_half"

definition example_twins :: state where
  "example_twins =
     step (Create 1729764005000 ''10:00:05'' ''2024-10-24T10:00:05.000Z'' ''ws_2'' ''audio_2'' 2048)
       example_created"

definition example_twins_done :: state where
  "example_twins_done =
     step (Fire 1729764020000 0 (readings ''10:00:20''))
       (step (Fire 1729764020000 0 (readings ''10:00:20''))
         (step (Fire 1729764013000 1 (readings ''10:00:13''))
           (step (Fire 1729764013000 0 (readings ''10:00:13''))
             (step (Fire 1729764007000 2 (readings ''10:00:07''))
               (step (Fire 1729764007000 0 (readings ''10:00:07'')) example_twins)))))"

section \<open>Properties\<close>

subsection \<open>Lists and lookup\<close>

lemma find_None_iff_ids: "find (\<lambda>t. task_id t = i) xs = None \<longleftrightarrow> i \<notin> task_id ` set xs"
  by (induction xs) auto

lemma find_filter_other: "find (\<lambda>t. task_id t = i) (filter (\<lambda>t. task_id t \<noteq> i) xs) = None"
  by (induction xs) auto

lemma find_filter_ne:
  "find (\<lambda>t. task_id t = j) (filter (\<lambda>t. task_id t \<noteq> i) xs)
     = (if j = i then None else find (\<lambda>t. task_id t = j) xs)"
  by (induction xs) auto

lemma find_snoc:
  "find P (xs @ [x]) = (case find P xs of Some y \<Rightarrow> Some y | None \<Rightarrow> (if P x then Some x else None))"
  by (induction xs) auto

lemma find_Some_in: "find P xs = Some t \<Longrightarrow> t \<in> set xs \<and> P t"
  by (induction xs) (auto split: if_splits)

lemma count_list_filter:
  "count_list (filter P xs) x = (if P x then count_list xs x else 0)"
  by (induction xs) auto

lemma length_update_first [simp]: "length (update_first P f xs) = length xs"
  by (induction xs) auto

lemma set_update_first: "set (update_first P f xs) \<subseteq> set xs \<union> f ` {t \<in> set xs. P t}"
  by (induction xs) auto

lemma update_first_all2_first:
  assumes "\<And>t. t \<in> set xs \<Longrightarrow> R t t" "\<And>t. find P xs = Some t \<Longrightarrow> R t (f t)"
  shows "list_all2 R xs (update_first P f xs)"
  using assms by (induction xs) (auto simp: list_all2_same)

lemma find_update_first:
  assumes "\<And>t. task_id (f t) = task_id t"
  shows "find (\<lambda>t. task_id t = i) (update_first (\<lambda>t. task_id t = x) f xs)
         = (if i = x then map_option f (find (\<lambda>t. task_id t = x) xs) else find (\<lambda>t. task_id t = i) xs)"
  using assms by (induction xs) auto

lemma task_id_run_body [simp]: "task_id (run_body b r t) = task_id t"
  by (cases b) auto

lemma progress_run_body [simp]: "progress (run_body b r t) = cap b"
  by (cases b) auto

lemma set_remove_nth: "set (remove_nth k xs) \<subseteq> set xs"
  unfolding remove_nth_def by (auto dest: in_set_takeD in_set_dropD)

lemma in_remove_nth: "y \<in> set xs \<Longrightarrow> y \<noteq> xs ! k \<Longrightarrow> y \<in> set (remove_nth k xs)"
proof (cases "k < length xs")
  case True
  assume y: "y \<in> set xs" "y \<noteq> xs ! k"
  have "set (take k xs @ xs ! k # drop (Suc k) xs) = set xs"
    using id_take_nth_drop [OF True] by simp
  with y have "y \<in> set (take k xs) \<union> set (drop (Suc k) xs)" by auto
  then show ?thesis by (simp add: remove_nth_def)
next
  case False
  assume "y \<in> set xs"
  with False show ?thesis by (simp add: remove_nth_def)
qed

subsection \<open>Generated ids\<close>

text \<open>Different clock values give different ids.\<close>

lemma digit_value_digit: "d < 10 \<Longrightarrow> digit_value (digit d) = d"
  by (simp add: digit_value_def digit_def)

lemma read_nat_snoc: "read_nat (cs @ [c]) = 10 * read_nat cs + digit_value c"
  by (simp add: read_nat_def)

lemma read_show_nat: "read_nat (show_nat n) = n"
proof (induction n rule: show_nat.induct)
  case (1 n)
  show ?case
  proof (cases "n < 10")
    case True
    then show ?thesis
      by (subst show_nat.simps) (simp add: read_nat_def digit_value_digit)
  next
    case False
    then have "read_nat (show_nat (n div 10)) = n div 10" using 1 by simp
    with False show ?thesis
      by (subst show_nat.simps) (simp add: read_nat_snoc digit_value_digit)
  qed
qed

lemma show_nat_inj: "show_nat a = show_nat b \<Longrightarrow> a = b"
  by (metis read_show_nat)

lemma task_id_at_inj [simp]: "task_id_at a = task_id_at b \<longleftrightarrow> a = b"
  by (auto simp: task_id_at_def dest: show_nat_inj)

lemma digit_simps: "digit 0 = CHR ''0''" "digit 1 = CHR ''1''" "digit 2 = CHR ''2''" "digit 3 = CHR ''3''"
  "digit 4 = CHR ''4''" "digit 5 = CHR ''5''" "digit 6 = CHR ''6''" "digit 7 = CHR ''7''"
  "digit 8 = CHR ''8''" "digit 9 = CHR ''9''" "digit (Suc 0) = CHR ''1''"
  by code_simp+

lemma seed_ids: "''task_1'' = task_id_at 1" "''task_2'' = task_id_at 2"
  by (simp_all add: task_id_at_def show_nat.simps digit_simps)

lemma example_ids:
  "task_id_at 1729764005000 = ''task_1729764005000''"
  "meeting_id_at 1729764030000 = ''m_1729764030000''"
  by (simp_all add: task_id_at_def meeting_id_at_def show_nat.simps digit_simps)

lemmas example_defs = example_loaded_def example_created_def example_started_def example_half_def
  example_ready_def example_twins_def readings_def example_data_def
  initial_state_def seed_tasks_def createTask_def new_task_def Let_def run_timer_def remove_nth_def
  example_ids log_line_def finalizeTask_def new_meeting_def getTask_def

subsection \<open>The invariant holds in every reachable state\<close>

lemma inv_initial: "2 < c \<Longrightarrow> service_inv (initial_state M a b c)"
  by (auto simp: service_inv_def timers_ok_def fresh_ok_def pending_ok_def queued_ok_def
      initial_state_def seed_tasks_def getTask_def seed_ids split: if_splits)

lemma delay_cap_mono: "delay b \<le> delay b' \<Longrightarrow> cap b \<le> cap b'"
  by (cases b; cases b') auto

lemma delay_pos: "0 < delay b"
  by (cases b) auto

lemma cap_bounds: "0 \<le> cap b \<and> cap b \<le> 100"
  by (cases b) auto

lemma same_target_order:
  assumes "timers_ok s" "tm \<in> set (timers s)" "tm' \<in> set (timers s)"
    "target tm' = target tm" "due tm \<le> due tm'"
  shows "delay (body tm) \<le> delay (body tm')"
proof -
  from assms(1,2) have a: "delay (body tm) \<le> due tm" "target tm = task_id_at (due tm - delay (body tm))"
    by (auto simp: timers_ok_def)
  from assms(1,3) have b: "delay (body tm') \<le> due tm'" "target tm' = task_id_at (due tm' - delay (body tm'))"
    by (auto simp: timers_ok_def)
  from a b assms(4) have "due tm - delay (body tm) = due tm' - delay (body tm')" by simp
  with a(1) b(1) assms(5) show ?thesis by arith
qed

lemma inv_create:
  assumes "service_inv s" "clock s \<le> now"
  shows "service_inv (step (Create now lt it ws fn fs) s)"
proof -
  let ?s' = "step (Create now lt it ws fn fs) s"
  have tasks: "mockTasks ?s' = mockTasks s @ [new_task now lt it ws fn fs]"
    and tms: "set (timers ?s') = set (timers s) \<union>
        {\<lparr>due = now + 2000, target = task_id_at now, body = Start_transcription\<rparr>,
         \<lparr>due = now + 8000, target = task_id_at now, body = Half_way\<rparr>,
         \<lparr>due = now + 15000, target = task_id_at now, body = Ready_for_review\<rparr>}"
    and clk: "clock ?s' = now"
    by (auto simp: createTask_def Let_def new_task_def)
  have nt: "task_id (new_task now lt it ws fn fs) = task_id_at now"
    "progress (new_task now lt it ws fn fs) = 0" "status (new_task now lt it ws fn fs) = Queued"
    by (simp_all add: new_task_def)
  from assms have t: "timers_ok s" and f: "fresh_ok s" and p: "pending_ok s" and q: "queued_ok s"
    by (auto simp: service_inv_def)
  have 1: "timers_ok ?s'"
    unfolding timers_ok_def tms clk using t assms(2) by (auto simp: timers_ok_def)
  have 2: "fresh_ok ?s'"
    unfolding fresh_ok_def tasks clk using f assms(2) nt by (auto simp: fresh_ok_def)
  have 3: "pending_ok ?s'"
    unfolding pending_ok_def tasks tms
  proof (intro ballI)
    fix u assume u: "u \<in> set (mockTasks s @ [new_task now lt it ws fn fs])"
    show "0 \<le> progress u \<and> progress u \<le> 100 \<and> status u \<in> {Queued, Processing, Review_ready}
        \<and> (\<forall>tm\<in>set (timers s) \<union>
        {\<lparr>due = now + 2000, target = task_id_at now, body = Start_transcription\<rparr>,
         \<lparr>due = now + 8000, target = task_id_at now, body = Half_way\<rparr>,
         \<lparr>due = now + 15000, target = task_id_at now, body = Ready_for_review\<rparr>}.
          target tm = task_id u \<longrightarrow> progress u \<le> cap (body tm)
            \<and> (body tm \<noteq> Ready_for_review \<longrightarrow> status u \<noteq> Review_ready))"
    proof (cases "u \<in> set (mockTasks s)")
      case True
      with p have old: "0 \<le> progress u" "progress u \<le> 100" "status u \<in> {Queued, Processing, Review_ready}"
        "\<forall>tm\<in>set (timers s). target tm = task_id u \<longrightarrow> progress u \<le> cap (body tm)
            \<and> (body tm \<noteq> Ready_for_review \<longrightarrow> status u \<noteq> Review_ready)"
        by (auto simp: pending_ok_def)
      have "task_id u = task_id_at now \<Longrightarrow> progress u = 0 \<and> status u = Queued"
        using f True assms(2) by (auto simp: fresh_ok_def)
      with old show ?thesis by auto
    next
      case False
      with u have [simp]: "u = new_task now lt it ws fn fs" by simp
      have "\<And>tm. tm \<in> set (timers s) \<Longrightarrow> 0 \<le> cap (body tm)"
        subgoal for tm by (cases "body tm") auto
        done
      then show ?thesis using nt by auto
    qed
  qed
  have gt: "getTask ?s' i = find (\<lambda>t. task_id t = i) (mockTasks s @ [new_task now lt it ws fn fs])" for i
    unfolding getTask_def tasks ..
  have 4: "queued_ok ?s'"
    unfolding queued_ok_def
  proof (intro allI impI)
    fix i u assume a: "getTask ?s' i = Some u \<and> status u = Queued"
    show "\<exists>tm\<in>set (timers ?s'). target tm = i \<and> body tm = Start_transcription"
    proof (cases "getTask s i")
      case None
      with a have "i = task_id_at now"
        unfolding gt by (auto simp: getTask_def find_snoc nt split: if_splits option.splits)
      then show ?thesis unfolding tms by simp
    next
      case (Some v)
      with a have "u = v" unfolding gt by (auto simp: getTask_def find_snoc)
      with Some a q obtain tm where "tm \<in> set (timers s)" "target tm = i" "body tm = Start_transcription"
        by (auto simp: queued_ok_def)
      then show ?thesis unfolding tms by auto
    qed
  qed
  from 1 2 3 4 show ?thesis by (simp add: service_inv_def)
qed

lemma step_finalize_cases:
  obtains (thrown) "find (\<lambda>t. task_id t = i) (mockTasks s) = None"
      "step (Finalize now it i d) s = s\<lparr>clock := now\<rparr>"
    | (removed) task where "find (\<lambda>t. task_id t = i) (mockTasks s) = Some task"
      "step (Finalize now it i d) s =
         s\<lparr>mockMeetings := mockMeetings s @ [new_meeting now it task d],
           mockTasks := filter (\<lambda>t. task_id t \<noteq> i) (mockTasks s), clock := now\<rparr>"
  by (cases "find (\<lambda>t. task_id t = i) (mockTasks s)") (auto simp: finalizeTask_def Let_def)

lemma inv_weaken:
  assumes "service_inv s" "clock s \<le> c" "set ts \<subseteq> set (mockTasks s)"
    "\<And>j t. find (\<lambda>t. task_id t = j) ts = Some t \<Longrightarrow> getTask s j = Some t"
  shows "service_inv (s\<lparr>mockMeetings := ms, mockTasks := ts, clock := c\<rparr>)"
proof -
  let ?s' = "s\<lparr>mockMeetings := ms, mockTasks := ts, clock := c\<rparr>"
  from assms(1) have t: "timers_ok s" and f: "fresh_ok s" and p: "pending_ok s" and q: "queued_ok s"
    by (auto simp: service_inv_def)
  have 1: "timers_ok ?s'"
    using t assms(2) unfolding timers_ok_def by fastforce
  have 2: "fresh_ok ?s'"
    unfolding fresh_ok_def
  proof (intro ballI allI impI)
    fix u T assume "u \<in> set (mockTasks ?s')" "clock ?s' \<le> T" "task_id u = task_id_at T"
    then have "u \<in> set (mockTasks s)" "clock s \<le> T" "task_id u = task_id_at T"
      using assms(2,3) by auto
    with f show "progress u = 0 \<and> status u = Queued" unfolding fresh_ok_def by blast
  qed
  have 3: "pending_ok ?s'"
    using p assms(3) unfolding pending_ok_def by (simp add: subset_iff)
  have 4: "queued_ok ?s'"
    using q assms(4) unfolding queued_ok_def getTask_def by simp
  from 1 2 3 4 show ?thesis by (simp add: service_inv_def)
qed

lemma inv_finalize:
  assumes "service_inv s" "clock s \<le> now"
  shows "service_inv (step (Finalize now it i d) s)"
proof (cases rule: step_finalize_cases [of i s now it d])
  case thrown
  have "service_inv (s\<lparr>mockMeetings := mockMeetings s, mockTasks := mockTasks s, clock := now\<rparr>)"
    by (rule inv_weaken [OF assms]) (auto simp: getTask_def)
  then show ?thesis unfolding thrown(2) by simp
next
  case (removed task)
  have "service_inv (s\<lparr>mockMeetings := mockMeetings s @ [new_meeting now it task d],
           mockTasks := filter (\<lambda>t. task_id t \<noteq> i) (mockTasks s), clock := now\<rparr>)"
    by (rule inv_weaken [OF assms]) (auto simp: getTask_def find_filter_ne split: if_splits)
  then show ?thesis unfolding removed(2) by simp
qed

lemma inv_fire:
  assumes "service_inv s" "enabled (Fire now k r) s"
  shows "service_inv (step (Fire now k r) s)"
proof -
  let ?tm = "timers s ! k"
  let ?x = "target ?tm"
  let ?b = "body ?tm"
  let ?s' = "step (Fire now k r) s"
  note [simp del] = step.simps
  from assms(1) have t: "timers_ok s" and f: "fresh_ok s" and p: "pending_ok s" and q: "queued_ok s"
    by (auto simp: service_inv_def)
  from assms(2) have clk: "clock s \<le> now" and k: "k < length (timers s)" and due: "due ?tm \<le> now"
    and least: "\<And>tm'. tm' \<in> set (timers s) \<Longrightarrow> due ?tm \<le> due tm'"
    by (auto simp: list_all_iff)
  from k have tm: "?tm \<in> set (timers s)" by simp
  have ord: "delay ?b \<le> delay (body tm')" if "tm' \<in> set (timers s)" "target tm' = ?x" for tm'
    using same_target_order [OF t tm that(1) that(2)] least [OF that(1)] by simp
  from t tm have origin: "delay ?b \<le> due ?tm" "?x = task_id_at (due ?tm - delay ?b)"
    by (auto simp: timers_ok_def)
  have tasks: "mockTasks ?s' = update_first (\<lambda>t. task_id t = ?x) (run_body ?b r) (mockTasks s)"
    and tms: "timers ?s' = remove_nth k (timers s)" and clk': "clock ?s' = now"
    by (simp_all add: step.simps run_timer_def)
  have sub: "set (timers ?s') \<subseteq> set (timers s)"
    unfolding tms by (rule set_remove_nth)
  have split: "u \<in> set (mockTasks s) \<or> (\<exists>v \<in> set (mockTasks s). task_id v = ?x \<and> u = run_body ?b r v)"
    if "u \<in> set (mockTasks ?s')" for u
    using that set_update_first [of "\<lambda>t. task_id t = ?x" "run_body ?b r" "mockTasks s"]
    unfolding tasks by auto
  have 1: "timers_ok ?s'"
    unfolding timers_ok_def clk'
  proof
    fix tm' assume "tm' \<in> set (timers ?s')"
    with sub have "tm' \<in> set (timers s)" by auto
    with t clk show "delay (body tm') \<le> due tm' \<and> due tm' - delay (body tm') \<le> now
        \<and> target tm' = task_id_at (due tm' - delay (body tm'))"
      by (auto simp: timers_ok_def)
  qed
  have 2: "fresh_ok ?s'"
    unfolding fresh_ok_def clk'
  proof (intro ballI allI impI)
    fix u T assume u: "u \<in> set (mockTasks ?s')" and T: "now \<le> T" "task_id u = task_id_at T"
    from split [OF u] show "progress u = 0 \<and> status u = Queued"
    proof
      assume "u \<in> set (mockTasks s)"
      with f T clk show ?thesis by (auto simp: fresh_ok_def)
    next
      assume "\<exists>v \<in> set (mockTasks s). task_id v = ?x \<and> u = run_body ?b r v"
      then have "task_id u = ?x" by auto
      with T(2) origin(2) have "T = due ?tm - delay ?b" by simp
      with origin(1) due T(1) delay_pos [of ?b] show ?thesis by arith
    qed
  qed
  have 3: "pending_ok ?s'"
    unfolding pending_ok_def
  proof (intro ballI)
    fix u assume u: "u \<in> set (mockTasks ?s')"
    from split [OF u]
    show "0 \<le> progress u \<and> progress u \<le> 100 \<and> status u \<in> {Queued, Processing, Review_ready}
        \<and> (\<forall>tm' \<in> set (timers ?s'). target tm' = task_id u \<longrightarrow>
              progress u \<le> cap (body tm') \<and> (body tm' \<noteq> Ready_for_review \<longrightarrow> status u \<noteq> Review_ready))"
    proof
      assume "u \<in> set (mockTasks s)"
      with p sub show ?thesis unfolding pending_ok_def by blast
    next
      assume "\<exists>v \<in> set (mockTasks s). task_id v = ?x \<and> u = run_body ?b r v"
      then obtain v where v: "v \<in> set (mockTasks s)" "task_id v = ?x" "u = run_body ?b r v" by auto
      from p v(1) have pv: "status v \<in> {Queued, Processing, Review_ready}"
        "\<And>tm'. tm' \<in> set (timers s) \<Longrightarrow> target tm' = task_id v \<Longrightarrow>
            body tm' \<noteq> Ready_for_review \<Longrightarrow> status v \<noteq> Review_ready"
        by (auto simp: pending_ok_def)
      have a: "status u \<in> {Queued, Processing, Review_ready}"
        using pv(1) v(3) by (cases ?b) auto
      have b: "progress u \<le> cap (body tm') \<and> (body tm' \<noteq> Ready_for_review \<longrightarrow> status u \<noteq> Review_ready)"
        if "tm' \<in> set (timers ?s')" "target tm' = task_id u" for tm'
      proof -
        from that sub v have in_s: "tm' \<in> set (timers s)" and tg: "target tm' = ?x" by auto
        from ord [OF in_s tg] have d: "delay ?b \<le> delay (body tm')" .
        then have "progress u \<le> cap (body tm')" using v(3) by (simp add: delay_cap_mono)
        moreover have "status u \<noteq> Review_ready" if nr: "body tm' \<noteq> Ready_for_review"
        proof (cases ?b)
          case Start_transcription
          then show ?thesis using v(3) by simp
        next
          case Half_way
          then have "status u = status v" using v(3) by simp
          with pv(2) [OF in_s _ nr] tg v(2) show ?thesis by simp
        next
          case Ready_for_review
          with d nr show ?thesis by (cases "body tm'") auto
        qed
        ultimately show ?thesis by simp
      qed
      from a b v(3) cap_bounds [of ?b] show ?thesis by simp
    qed
  qed
  have gt: "getTask ?s' i = (if i = ?x then map_option (run_body ?b r) (getTask s ?x) else getTask s i)" for i
    unfolding getTask_def tasks by (rule find_update_first) simp
  have 4: "queued_ok ?s'"
    unfolding queued_ok_def
  proof (intro allI impI)
    fix i u assume a: "getTask ?s' i = Some u \<and> status u = Queued"
    show "\<exists>tm' \<in> set (timers ?s'). target tm' = i \<and> body tm' = Start_transcription"
    proof (cases "i = ?x")
      case True
      with a have "map_option (run_body ?b r) (getTask s ?x) = Some u" by (simp add: gt)
      then obtain v where v: "getTask s ?x = Some v" "u = run_body ?b r v" by auto
      from a v(2) have hw: "?b = Half_way" by (cases ?b) simp_all
      with a v(2) have "status v = Queued" by simp
      with q v(1) obtain tm' where "tm' \<in> set (timers s)" "target tm' = ?x" "body tm' = Start_transcription"
        unfolding queued_ok_def by blast
      with ord [of tm'] hw show ?thesis by simp
    next
      case False
      with a have "getTask s i = Some u" by (simp add: gt)
      with a q obtain tm' where tm': "tm' \<in> set (timers s)" "target tm' = i" "body tm' = Start_transcription"
        unfolding queued_ok_def by blast
      with False have "tm' \<noteq> ?tm" by auto
      with tm'(1) have "tm' \<in> set (timers ?s')" unfolding tms by (rule in_remove_nth)
      with tm' show ?thesis by auto
    qed
  qed
  from 1 2 3 4 show ?thesis by (simp add: service_inv_def)
qed

lemma inv_step: "service_inv s \<Longrightarrow> enabled e s \<Longrightarrow> service_inv (step e s)"
  by (cases e) (simp_all del: step.simps enabled.simps(3) add: inv_create inv_finalize inv_fire)

lemma reachable_inv: "reachable s \<Longrightarrow> service_inv s"
  by (induction rule: reachable.induct) (auto intro: inv_initial inv_step)

lemma reachable_examples:
  "reachable example_loaded" "reachable example_created" "reachable example_started"
  "reachable example_half" "reachable example_ready" "reachable example_twins"
proof -
  show 0: "reachable example_loaded"
    unfolding example_loaded_def by (rule reachable.loaded) simp
  have "enabled (Create 1729764005000 ''10:00:05'' ''2024-10-24T10:00:05.000Z'' ''ws_1'' ''audio_1'' 1024)
      example_loaded"
    by (simp add: example_defs)
  with 0 show 1: "reachable example_created"
    unfolding example_created_def by (rule reachable.after)
  have "enabled (Fire 1729764007000 0 (readings ''10:00:07'')) example_created"
    by (simp add: example_defs)
  with 1 show 2: "reachable example_started"
    unfolding example_started_def by (rule reachable.after)
  have "enabled (Fire 1729764013000 0 (readings ''10:00:13'')) example_started"
    by (simp add: example_defs)
  with 2 show 3: "reachable example_half"
    unfolding example_half_def by (rule reachable.after)
  have "enabled (Fire 1729764020000 0 (readings ''10:00:20'')) example_half"
    by (simp add: example_defs)
  with 3 show "reachable example_ready"
    unfolding example_ready_def by (rule reachable.after)
  have "enabled (Create 1729764005000 ''10:00:05'' ''2024-10-24T10:00:05.000Z'' ''ws_2'' ''audio_2'' 2048)
      example_created"
    by (simp add: example_defs)
  with 1 show "reachable example_twins"
    unfolding example_twins_def by (rule reachable.after)
qed

subsection \<open>The task array across one event\<close>

lemma tasks_step_create:
  assumes "\<And>t. R t t"
  shows "tasks_step R (mockTasks s) (mockTasks (step (Create now lt it ws fn fs) s))"
  using assms by (simp add: tasks_step_def createTask_def Let_def list_all2_same)

lemma tasks_step_finalize:
  "tasks_step R (mockTasks s) (mockTasks (step (Finalize now it i d) s))"
  by (cases rule: step_finalize_cases [of i s now it d]) (simp_all add: tasks_step_def)

lemma tasks_step_fire:
  assumes "\<And>t. R t t"
    "\<And>t. getTask s (target (timers s ! k)) = Some t \<Longrightarrow> R t (run_body (body (timers s ! k)) r t)"
  shows "tasks_step R (mockTasks s) (mockTasks (step (Fire now k r) s))"
proof -
  have "list_all2 (\<lambda>a b. task_id b = task_id a \<and> R a b) (mockTasks s)
     (update_first (\<lambda>t. task_id t = target (timers s ! k)) (run_body (body (timers s ! k)) r) (mockTasks s))"
    by (rule update_first_all2_first) (use assms in \<open>auto simp: getTask_def\<close>)
  then show ?thesis by (simp add: tasks_step_def run_timer_def)
qed

subsection \<open>Finalize\<close>

text \<open>
  C1, as the code has it. \<open>finalizeTask\<close> looks at no status: it succeeds exactly when
  a task with the id is stored. After it has succeeded, one meeting more is stored, no
  task with the id is left, and a second call with the same id, whatever its other
  arguments, throws \<open>Task not found\<close>.
\<close>

theorem finalize_exists_once:
  "((\<exists>res. finalizeTask now it i d s = Inr res) \<longleftrightarrow> getTask s i \<noteq> None)
   \<and> (finalizeTask now it i d s = Inr (mid, s') \<longrightarrow>
         finalizeTask now' it' i d' s' = Inl (Error ''Task not found'')
         \<and> length (mockMeetings s') = Suc (length (mockMeetings s))
         \<and> getTask s' i = None)"
  by (auto simp: finalizeTask_def getTask_def Let_def find_filter_other split: option.splits)

text \<open>
  At the seeded task \<open>task_1\<close>: the first call succeeds and stores a second meeting
  beside the seeded one, the second call throws.
\<close>

theorem finalize_exists_once_witness:
  "getTask example_loaded ''task_1'' \<noteq> None
   \<and> length (mockMeetings example_loaded) = 1
   \<and> (case finalizeTask 1729764030000 ''2024-10-24T10:00:30.000Z'' ''task_1'' example_data example_loaded of
        Inl e \<Rightarrow> False
      | Inr (mid, s') \<Rightarrow>
          finalizeTask 1729764031000 ''2024-10-24T10:00:31.000Z'' ''task_1'' example_data s'
            = Inl (Error ''Task not found'')
          \<and> length (mockMeetings s') = 2)"
proof -
  obtain mid s' where h:
    "finalizeTask 1729764030000 ''2024-10-24T10:00:30.000Z'' ''task_1'' example_data example_loaded
       = Inr (mid, s')"
    by (simp add: example_defs)
  have g: "getTask example_loaded ''task_1'' \<noteq> None"
    by (simp add: example_defs)
  have m: "length (mockMeetings example_loaded) = 1"
    by (simp add: example_loaded_def initial_state_def seed_meetings_def)
  from finalize_exists_once [of 1729764030000 "''2024-10-24T10:00:30.000Z''" "''task_1''" example_data
      example_loaded mid s' 1729764031000 "''2024-10-24T10:00:31.000Z''" example_data] h g m
  show ?thesis by simp
qed

text \<open>
  C1 as stated fails: the seeded task \<open>task_2\<close> has status \<open>processing\<close>, and finalize
  succeeds on it, returns a meeting id and leaves no task under that id.
\<close>

theorem finalize_processing_counterexample:
  "map_option status (getTask example_loaded ''task_2'') = Some Processing
   \<and> (case finalizeTask 1729764030000 ''2024-10-24T10:00:30.000Z'' ''task_2'' example_data example_loaded of
        Inl e \<Rightarrow> False
      | Inr (mid, s') \<Rightarrow> mid = ''m_1729764030000'' \<and> getTask s' ''task_2'' = None
          \<and> map status (mockTasks s') = [Review_ready])"
  by (simp add: example_defs)

text \<open>
  C3, as the code has it. A successful finalize removes the task: a lookup of its id
  finds nothing afterwards, the tasks API reports \<open>Task not found\<close>, and the tasks that
  are left are tasks that were there, untouched and in their order.
\<close>

theorem finalize_removes_task:
  assumes "finalizeTask now it i d s = Inr (mid, s')"
  shows "getTask s' i = None
         \<and> tasksApi_get True backend s' i = Inl (Error ''Task not found'')
         \<and> subseq (mockTasks s') (mockTasks s)"
  using assms
  by (auto simp: finalizeTask_def getTask_def tasksApi_get_def Let_def find_filter_other
      split: option.splits)

text \<open>
  At the seeded task \<open>task_1\<close>.
\<close>

theorem finalize_removes_task_witness:
  "(case finalizeTask 1729764030000 ''2024-10-24T10:00:30.000Z'' ''task_1'' example_data example_loaded of
      Inl e \<Rightarrow> False
    | Inr (mid, s') \<Rightarrow> getTask s' ''task_1'' = None \<and> subseq (mockTasks s') (mockTasks example_loaded))"
proof -
  obtain mid s' where h:
    "finalizeTask 1729764030000 ''2024-10-24T10:00:30.000Z'' ''task_1'' example_data example_loaded
       = Inr (mid, s')"
    by (simp add: example_defs)
  from finalize_removes_task [OF h] h show ?thesis by simp
qed

text \<open>
  C3 as stated fails: \<open>task_1\<close> is ready for review; after its finalize the lookup of
  \<open>task_1\<close> finds nothing, and the one task left has status \<open>processing\<close>, none
  \<open>completed\<close>.
\<close>

theorem finalize_not_retained_counterexample:
  "map_option status (getTask example_loaded ''task_1'') = Some Review_ready
   \<and> (case finalizeTask 1729764030000 ''2024-10-24T10:00:30.000Z'' ''task_1'' example_data example_loaded of
        Inl e \<Rightarrow> False
      | Inr (mid, s') \<Rightarrow> getTask s' ''task_1'' = None \<and> map status (mockTasks s') = [Processing])"
  by (simp add: example_defs)

text \<open>
  Where exactly one stored task carries the id, a successful finalize takes that task
  out of the task array and leaves the rest as it was, in order; one meeting is pushed
  behind the meetings that were there; the call returns its id; the meeting carries the
  given title, template and tags, the workspace id of the task and the status
  \<open>completed\<close>; the pending timers stay.
\<close>

lemma finalize_frame_unique_id:
  assumes "finalizeTask now it i d s = Inr (mid, s')"
    and "length (filter (\<lambda>t. task_id t = i) (mockTasks s)) = 1"
  shows "\<exists>task before behind m.
           mockTasks s = before @ task # behind \<and> getTask s i = Some task
           \<and> mockTasks s' = before @ behind
           \<and> mockMeetings s' = mockMeetings s @ [m]
           \<and> meeting_id m = mid
           \<and> title m = data_title d \<and> template m = Some (data_template d)
           \<and> tags m = Some (data_tags d)
           \<and> meeting_workspaceId m = workspaceId task
           \<and> meeting_state m = Meeting_completed
           \<and> timers s' = timers s"
proof -
  from assms(2) obtain task where "filter (\<lambda>t. task_id t = i) (mockTasks s) = [task]"
    by (cases "filter (\<lambda>t. task_id t = i) (mockTasks s)") auto
  then obtain before behind where sp: "mockTasks s = before @ task # behind"
    "\<forall>u \<in> set before. task_id u \<noteq> i" "task_id task = i" "\<forall>u \<in> set behind. task_id u \<noteq> i"
    by (auto simp: filter_eq_Cons_iff filter_empty_conv empty_filter_conv)
  then have f: "find (\<lambda>t. task_id t = i) (mockTasks s) = Some task"
    by (auto simp: find_Some_iff nth_append intro!: exI [of _ "length before"])
  from sp have r: "filter (\<lambda>t. task_id t \<noteq> i) (mockTasks s) = before @ behind"
    by (simp add: filter_id_conv)
  from assms(1) f r have "s' = s\<lparr>mockMeetings := mockMeetings s @ [new_meeting now it task d],
      mockTasks := before @ behind\<rparr>" "mid = meeting_id (new_meeting now it task d)"
    by (auto simp: finalizeTask_def Let_def)
  with sp(1) f show ?thesis
    by (intro exI [of _ task] exI [of _ before] exI [of _ behind]
        exI [of _ "new_meeting now it task d"]) (simp add: getTask_def new_meeting_def)
qed

text \<open>
  C9 fails on the code where two tasks share an id. Two uploads in one millisecond get
  the same id from \<open>Date.now()\<close>, the first into workspace \<open>ws_1\<close>, the second into
  \<open>ws_2\<close>. Finalize of that id builds its meeting from the task \<open>find\<close> returns, the
  first (\<open>audio_1\<close>, \<open>ws_1\<close>), and its \<open>filter\<close> removes the second (\<open>audio_2\<close>, \<open>ws_2\<close>)
  with it: of four tasks two are left and one meeting is pushed.
\<close>

theorem finalize_twins_removes_both:
  "map filename (mockTasks example_twins)
     = [''Q3_Product_Review_2024.m4a'', ''Weekly_Sync_Meeting.m4a'', ''audio_1'', ''audio_2'']
   \<and> map workspaceId (mockTasks example_twins) = [''ws_1'', ''ws_1'', ''ws_1'', ''ws_2'']
   \<and> map_option filename (getTask example_twins ''task_1729764005000'') = Some ''audio_1''
   \<and> (case finalizeTask 1729764030000 ''2024-10-24T10:00:30.000Z'' ''task_1729764005000'' example_data
           example_twins of
        Inl e \<Rightarrow> False
      | Inr (mid, s') \<Rightarrow>
          map filename (mockTasks s') = [''Q3_Product_Review_2024.m4a'', ''Weekly_Sync_Meeting.m4a'']
          \<and> map meeting_workspaceId (mockMeetings s') = [''ws_1'', ''ws_1''])"
  by (simp add: example_defs seed_meetings_def)

subsection \<open>Creating a task\<close>

text \<open>
  C4. For every workspace id, file name and file size, the task that \<open>createTask\<close>
  returns and pushes has status \<open>queued\<close>, progress 0 and a log of exactly one entry,
  the line written when the upload is queued.
\<close>

theorem createTask_initial_fields:
  "status (fst (createTask now lt it ws fn fs s)) = Queued
   \<and> progress (fst (createTask now lt it ws fn fs s)) = 0
   \<and> logs (fst (createTask now lt it ws fn fs s)) = [log_line lt ''File uploaded successfully'']
   \<and> length (logs (fst (createTask now lt it ws fn fs s))) = 1
   \<and> workspaceId (fst (createTask now lt it ws fn fs s)) = ws
   \<and> filename (fst (createTask now lt it ws fn fs s)) = fn
   \<and> last (mockTasks (snd (createTask now lt it ws fn fs s))) = fst (createTask now lt it ws fn fs s)"
  by (simp add: createTask_def new_task_def Let_def)

text \<open>
  An upload of \<open>audio_1\<close>.
\<close>

theorem createTask_initial_fields_witness:
  "status (fst (createTask 1729764005000 ''10:00:05'' ''2024-10-24T10:00:05.000Z'' ''ws_1''
      ''audio_1'' 1024 example_loaded)) = Queued
   \<and> progress (fst (createTask 1729764005000 ''10:00:05'' ''2024-10-24T10:00:05.000Z'' ''ws_1''
      ''audio_1'' 1024 example_loaded)) = 0
   \<and> logs (fst (createTask 1729764005000 ''10:00:05'' ''2024-10-24T10:00:05.000Z'' ''ws_1''
      ''audio_1'' 1024 example_loaded)) = [''[10:00:05] File uploaded successfully'']"
  using createTask_initial_fields [of 1729764005000 "''10:00:05''" "''2024-10-24T10:00:05.000Z''"
      "''ws_1''" "''audio_1''" 1024 example_loaded]
  by (simp add: log_line_def)

text \<open>
  C5, as the code has it. \<open>createTask\<close> validates nothing and cannot fail: whatever the
  file name, the empty one included, it pushes exactly one task carrying that file name
  and leaves the meetings alone.
\<close>

theorem createTask_no_validation:
  "mockTasks (snd (createTask now lt it ws fn fs s)) = mockTasks s @ [fst (createTask now lt it ws fn fs s)]
   \<and> filename (fst (createTask now lt it ws fn fs s)) = fn
   \<and> mockMeetings (snd (createTask now lt it ws fn fs s)) = mockMeetings s"
  by (simp add: createTask_def new_task_def Let_def)

text \<open>
  With the empty file name.
\<close>

theorem createTask_no_validation_witness:
  "map filename (mockTasks (snd (createTask 1729764005000 ''10:00:05'' ''2024-10-24T10:00:05.000Z''
      ''ws_1'' [] 0 example_loaded)))
     = [''Q3_Product_Review_2024.m4a'', ''Weekly_Sync_Meeting.m4a'', []]"
  using createTask_no_validation [of 1729764005000 "''10:00:05''" "''2024-10-24T10:00:05.000Z''"
      "''ws_1''" "[]" 0 example_loaded]
  by (simp add: example_loaded_def initial_state_def seed_tasks_def)

text \<open>
  C5 as stated fails: created with the empty file name, the task is pushed like any
  other, and the store holds three tasks where it held two.
\<close>

theorem createTask_empty_counterexample:
  "length (mockTasks example_loaded) = 2
   \<and> length (mockTasks (snd (createTask 1729764005000 ''10:00:05'' ''2024-10-24T10:00:05.000Z''
        ''ws_1'' [] 0 example_loaded))) = 3
   \<and> filename (last (mockTasks (snd (createTask 1729764005000 ''10:00:05''
        ''2024-10-24T10:00:05.000Z'' ''ws_1'' [] 0 example_loaded)))) = []"
  by (simp add: example_defs)

text \<open>
  Where no stored task carries the id that \<open>createTask\<close> generates, the lookup of the
  returned task's id right after the call yields that task. The lookup of an id that no
  stored task carries yields nothing, and the tasks API in mock mode reports it as the
  error \<open>Task not found\<close>.
\<close>

lemma create_then_get_fresh_id:
  "(task_id_at now \<notin> task_id ` set (mockTasks s) \<longrightarrow>
      getTask (snd (createTask now lt it ws fn fs s)) (task_id (fst (createTask now lt it ws fn fs s)))
        = Some (fst (createTask now lt it ws fn fs s)))
   \<and> (i \<notin> task_id ` set (mockTasks s) \<longrightarrow>
        getTask s i = None \<and> tasksApi_get True backend s i = Inl (Error ''Task not found''))"
proof -
  have none: "find (\<lambda>t. task_id t = x) (mockTasks s) = None" if "x \<notin> task_id ` set (mockTasks s)" for x
    using that by (simp add: find_None_iff_ids)
  show ?thesis
    by (simp add: createTask_def Let_def new_task_def getTask_def tasksApi_get_def find_snoc none)
qed

text \<open>
  C10 fails on the code where the generated id is taken. A second upload in the
  millisecond of the first gets the id of the first from \<open>Date.now()\<close>; the lookup of the
  id it returns yields the first task, \<open>audio_1\<close>, not the task just created, \<open>audio_2\<close>,
  and the tasks API hands the caller the first task too.
\<close>

theorem create_twins_lookup_finds_first:
  "filename (fst (createTask 1729764005000 ''10:00:05'' ''2024-10-24T10:00:05.000Z'' ''ws_2''
      ''audio_2'' 2048 example_created)) = ''audio_2''
   \<and> map_option filename
        (getTask (snd (createTask 1729764005000 ''10:00:05'' ''2024-10-24T10:00:05.000Z'' ''ws_2''
            ''audio_2'' 2048 example_created))
          (task_id (fst (createTask 1729764005000 ''10:00:05'' ''2024-10-24T10:00:05.000Z'' ''ws_2''
            ''audio_2'' 2048 example_created))))
       = Some ''audio_1''
   \<and> map_sum id filename
        (tasksApi_get True (\<lambda>i. Inl (Error ''offline''))
          (snd (createTask 1729764005000 ''10:00:05'' ''2024-10-24T10:00:05.000Z'' ''ws_2''
            ''audio_2'' 2048 example_created))
          (task_id (fst (createTask 1729764005000 ''10:00:05'' ''2024-10-24T10:00:05.000Z'' ''ws_2''
            ''audio_2'' 2048 example_created))))
       = Inr ''audio_1''"
  by (simp add: example_defs tasksApi_get_def)

text \<open>
  The callbacks of the second upload look for their task by the same id and find the
  first one: when all six callbacks of the two uploads have run, the first task is ready
  for review and the second is still queued at progress 0.
\<close>

lemma twins_callbacks_reach_first_only:
  "reachable example_twins_done
   \<and> map status (mockTasks example_twins_done) = [Review_ready, Processing, Review_ready, Queued]
   \<and> map progress (mockTasks example_twins_done) = [100, 65, 100, 0]
   \<and> timers example_twins_done = []"
proof -
  have "reachable example_twins_done"
    unfolding example_twins_done_def
    by (intro reachable.after reachable_examples(6)) (simp_all add: example_defs)
  moreover have "map status (mockTasks example_twins_done) = [Review_ready, Processing, Review_ready, Queued]"
    "map progress (mockTasks example_twins_done) = [100, 65, 100, 0]"
    "timers example_twins_done = []"
    by (simp_all add: example_defs example_twins_done_def)
  ultimately show ?thesis by simp
qed

subsection \<open>Listing by workspace\<close>

text \<open>
  C8. \<open>getTasks\<close> returns exactly the tasks of the given workspace: a task is listed
  if and only if it is stored under that workspace id, as often as it is stored, and in
  the stored order. The same holds of \<open>getMeetings\<close>.
\<close>

theorem getTasks_exact:
  "(t \<in> set (getTasks s ws) \<longleftrightarrow> t \<in> set (mockTasks s) \<and> workspaceId t = ws)
   \<and> count_list (getTasks s ws) t = (if workspaceId t = ws then count_list (mockTasks s) t else 0)
   \<and> subseq (getTasks s ws) (mockTasks s)
   \<and> (m \<in> set (getMeetings s ws) \<longleftrightarrow> m \<in> set (mockMeetings s) \<and> meeting_workspaceId m = ws)
   \<and> count_list (getMeetings s ws) m
       = (if meeting_workspaceId m = ws then count_list (mockMeetings s) m else 0)
   \<and> subseq (getMeetings s ws) (mockMeetings s)"
  unfolding getTasks_def getMeetings_def by (simp add: count_list_filter)

text \<open>
  The tasks and meetings of the two workspaces after the two uploads.
\<close>

theorem getTasks_exact_witness:
  "map filename (getTasks example_twins ''ws_2'') = [''audio_2'']
   \<and> map filename (getTasks example_twins ''ws_1'')
       = [''Q3_Product_Review_2024.m4a'', ''Weekly_Sync_Meeting.m4a'', ''audio_1'']
   \<and> map meeting_id (getMeetings example_twins ''ws_1'') = [''m_20241024_q3_review'']
   \<and> getMeetings example_twins ''ws_2'' = []
   \<and> subseq (getTasks example_twins ''ws_2'') (mockTasks example_twins)
   \<and> subseq (getMeetings example_twins ''ws_1'') (mockMeetings example_twins)"
proof -
  have "map filename (getTasks example_twins ''ws_2'') = [''audio_2'']"
    "map filename (getTasks example_twins ''ws_1'')
       = [''Q3_Product_Review_2024.m4a'', ''Weekly_Sync_Meeting.m4a'', ''audio_1'']"
    by (simp_all add: example_defs getTasks_def)
  moreover have "map meeting_id (getMeetings example_twins ''ws_1'') = [''m_20241024_q3_review'']"
    "getMeetings example_twins ''ws_2'' = []"
    by (simp_all add: example_defs getMeetings_def seed_meetings_def)
  ultimately show ?thesis
    using getTasks_exact [of _ example_twins "''ws_2''"] getTasks_exact [of _ example_twins "''ws_1''"]
    by simp
qed

subsection \<open>Logs, progress and status along a run\<close>

text \<open>
  C7, as the code has it. Whatever the state: \<open>createTask\<close> leaves the stored tasks as
  they are; a timer callback keeps every task at its index and under its id, with its
  old log as a prefix of its new log, and where it changes the status the log has
  grown. Finalize appends nothing and changes no task: the tasks left are tasks that
  were there, in their order, every task with another id is among them, and the task
  it was called for is gone, its log with it.
\<close>

theorem log_append_only:
  "take (length (mockTasks s)) (mockTasks (step (Create now lt it ws fn fs) s)) = mockTasks s
   \<and> list_all2 (\<lambda>a b. task_id b = task_id a \<and> log_appended a b)
        (mockTasks s) (mockTasks (step (Fire now' k r) s))
   \<and> subseq (mockTasks (step (Finalize now'' it' i d) s)) (mockTasks s)
   \<and> filter (\<lambda>t. task_id t \<noteq> i) (mockTasks (step (Finalize now'' it' i d) s))
       = filter (\<lambda>t. task_id t \<noteq> i) (mockTasks s)
   \<and> (getTask s i = Some task \<longrightarrow> task \<notin> set (mockTasks (step (Finalize now'' it' i d) s)))"
proof -
  have c: "take (length (mockTasks s)) (mockTasks (step (Create now lt it ws fn fs) s)) = mockTasks s"
    by (simp add: createTask_def Let_def)
  have la: "prefix (logs t) (logs (run_body b r t))
      \<and> (status (run_body b r t) \<noteq> status t \<longrightarrow> length (logs t) < length (logs (run_body b r t)))"
    for b t
    by (cases b) simp_all
  have "list_all2 (\<lambda>a b. task_id b = task_id a \<and> log_appended a b) (mockTasks s)
      (update_first (\<lambda>t. task_id t = target (timers s ! k)) (run_body (body (timers s ! k)) r)
        (mockTasks s))"
    by (rule update_first_all2_first) (simp_all add: log_appended_def la)
  then have f: "list_all2 (\<lambda>a b. task_id b = task_id a \<and> log_appended a b)
      (mockTasks s) (mockTasks (step (Fire now' k r) s))"
    by (simp add: run_timer_def)
  have z: "subseq (mockTasks (step (Finalize now'' it' i d) s)) (mockTasks s)
      \<and> filter (\<lambda>t. task_id t \<noteq> i) (mockTasks (step (Finalize now'' it' i d) s))
          = filter (\<lambda>t. task_id t \<noteq> i) (mockTasks s)
      \<and> (getTask s i = Some task \<longrightarrow> task \<notin> set (mockTasks (step (Finalize now'' it' i d) s)))"
  proof (cases rule: step_finalize_cases [of i s now'' it' d])
    case thrown
    then show ?thesis by (simp add: getTask_def)
  next
    case (removed found)
    then show ?thesis by (auto simp: getTask_def dest: find_Some_in)
  qed
  from c f z show ?thesis by simp
qed

text \<open>
  In the example run: the first callback moves the new task from \<open>queued\<close> to
  \<open>processing\<close> and adds one line to its log; a finalize of \<open>task_1\<close> leaves the two other
  tasks as they are.
\<close>

theorem log_append_only_witness:
  "list_all2 (\<lambda>a b. task_id b = task_id a \<and> log_appended a b)
     (mockTasks example_created) (mockTasks example_started)
   \<and> map status (mockTasks example_created) = [Review_ready, Processing, Queued]
   \<and> map status (mockTasks example_started) = [Review_ready, Processing, Processing]
   \<and> logs (mockTasks example_created ! 2) = [''[10:00:05] File uploaded successfully'']
   \<and> logs (mockTasks example_started ! 2)
       = [''[10:00:05] File uploaded successfully'', ''[10:00:07] Starting transcription...'']
   \<and> map_option filename (getTask example_created ''task_1'') = Some ''Q3_Product_Review_2024.m4a''
   \<and> map filename (mockTasks (step (Finalize 1729764030000 ''2024-10-24T10:00:30.000Z'' ''task_1''
         example_data) example_created)) = [''Weekly_Sync_Meeting.m4a'', ''audio_1'']"
proof -
  have "list_all2 (\<lambda>a b. task_id b = task_id a \<and> log_appended a b)
     (mockTasks example_created) (mockTasks example_started)"
    unfolding example_started_def
    using log_append_only [of example_created _ _ _ _ _ _ 1729764007000 0 "readings ''10:00:07''"]
    by blast
  moreover have "map status (mockTasks example_created) = [Review_ready, Processing, Queued]"
    "map status (mockTasks example_started) = [Review_ready, Processing, Processing]"
    "logs (mockTasks example_created ! 2) = [''[10:00:05] File uploaded successfully'']"
    "logs (mockTasks example_started ! 2)
       = [''[10:00:05] File uploaded successfully'', ''[10:00:07] Starting transcription...'']"
    "map_option filename (getTask example_created ''task_1'') = Some ''Q3_Product_Review_2024.m4a''"
    "map filename (mockTasks (step (Finalize 1729764030000 ''2024-10-24T10:00:30.000Z'' ''task_1''
         example_data) example_created)) = [''Weekly_Sync_Meeting.m4a'', ''audio_1'']"
    by (simp_all add: example_defs)
  ultimately show ?thesis by simp
qed

text \<open>
  C7 as stated fails at finalize: the seeded task \<open>task_1\<close> has a log of seven lines;
  after its finalize no task has the id, the one task left has the five lines it had,
  and no line was appended anywhere.
\<close>

theorem finalize_drops_log_counterexample:
  "map_option (\<lambda>t. length (logs t)) (getTask example_loaded ''task_1'') = Some 7
   \<and> map (\<lambda>t. length (logs t)) (mockTasks example_loaded) = [7, 5]
   \<and> getTask (step (Finalize 1729764030000 ''2024-10-24T10:00:30.000Z'' ''task_1'' example_data)
        example_loaded) ''task_1'' = None
   \<and> map (\<lambda>t. length (logs t))
        (mockTasks (step (Finalize 1729764030000 ''2024-10-24T10:00:30.000Z'' ''task_1'' example_data)
          example_loaded)) = [5]"
  by (simp add: example_defs)

text \<open>
  C6. In every state a run can reach, the progress of every task is between 0 and 100,
  and no event lowers the progress of a task that is still stored after it. The code
  has no retry, so the exception the claim allows is never used.
\<close>

theorem progress_monotone:
  assumes "reachable s" "enabled e s"
  shows "(\<forall>t \<in> set (mockTasks s). 0 \<le> progress t \<and> progress t \<le> 100)
         \<and> tasks_step progress_kept (mockTasks s) (mockTasks (step e s))"
proof -
  from assms(1) have i: "service_inv s" by (rule reachable_inv)
  then have p: "pending_ok s" by (simp add: service_inv_def)
  then have range: "\<forall>t \<in> set (mockTasks s). 0 \<le> progress t \<and> progress t \<le> 100"
    by (simp add: pending_ok_def)
  have "tasks_step progress_kept (mockTasks s) (mockTasks (step e s))"
  proof (cases e)
    case (Create now lt it ws fn fs)
    then show ?thesis using tasks_step_create [of progress_kept] by (simp add: progress_kept_def del: step.simps)
  next
    case (Finalize now it i d)
    then show ?thesis using tasks_step_finalize by simp
  next
    case (Fire now k r)
    with assms(2) have k: "timers s ! k \<in> set (timers s)" by simp
    have "progress t \<le> cap (body (timers s ! k))" if "getTask s (target (timers s ! k)) = Some t" for t
    proof -
      from that have "t \<in> set (mockTasks s)" "task_id t = target (timers s ! k)"
        by (auto simp: getTask_def dest: find_Some_in)
      with p k show ?thesis unfolding pending_ok_def by metis
    qed
    then show ?thesis unfolding Fire by (intro tasks_step_fire) (simp_all add: progress_kept_def)
  qed
  with range show ?thesis by simp
qed

text \<open>
  The first callback of the example run raises the progress of the new task from 0 to
  10.
\<close>

theorem progress_monotone_witness:
  "reachable example_created
   \<and> enabled (Fire 1729764007000 0 (readings ''10:00:07'')) example_created
   \<and> tasks_step progress_kept (mockTasks example_created) (mockTasks example_started)
   \<and> map progress (mockTasks example_created) = [100, 65, 0]
   \<and> map progress (mockTasks example_started) = [100, 65, 10]"
proof -
  have r: "reachable example_created" by (rule reachable_examples)
  have e: "enabled (Fire 1729764007000 0 (readings ''10:00:07'')) example_created"
    by (simp add: example_defs)
  from progress_monotone [OF r e]
  have "tasks_step progress_kept (mockTasks example_created) (mockTasks example_started)"
    unfolding example_started_def by simp
  moreover have "map progress (mockTasks example_created) = [100, 65, 0]"
    "map progress (mockTasks example_started) = [100, 65, 10]"
    by (simp_all add: example_defs)
  ultimately show ?thesis using r e by simp
qed

text \<open>
  C2, as the code has it. In every state a run can reach, every status is \<open>queued\<close>,
  \<open>processing\<close> or \<open>review_ready\<close>; an event leaves the status of a stored task as it
  is or moves it from \<open>queued\<close> to \<open>processing\<close> or from \<open>processing\<close> to
  \<open>review_ready\<close>; and a task pushed by the event is \<open>queued\<close>.
\<close>

theorem status_moves:
  assumes "reachable s" "enabled e s"
  shows "(\<forall>t \<in> set (mockTasks s). status t \<in> {Queued, Processing, Review_ready})
         \<and> tasks_step status_edge (mockTasks s) (mockTasks (step e s))
         \<and> (\<forall>t \<in> set (drop (length (mockTasks s)) (mockTasks (step e s))). status t = Queued)"
proof -
  from assms(1) have i: "service_inv s" by (rule reachable_inv)
  then have p: "pending_ok s" and q: "queued_ok s" and t: "timers_ok s" by (simp_all add: service_inv_def)
  then have range: "\<forall>t \<in> set (mockTasks s). status t \<in> {Queued, Processing, Review_ready}"
    by (simp add: pending_ok_def)
  have "tasks_step status_edge (mockTasks s) (mockTasks (step e s))
      \<and> (\<forall>t \<in> set (drop (length (mockTasks s)) (mockTasks (step e s))). status t = Queued)"
  proof (cases e)
    case (Create now lt it ws fn fs)
    have "tasks_step status_edge (mockTasks s) (mockTasks (step (Create now lt it ws fn fs) s))"
      by (rule tasks_step_create) (simp add: status_edge_def)
    then show ?thesis unfolding Create by (simp add: createTask_def Let_def new_task_def)
  next
    case (Finalize now it i d)
    have "length (mockTasks (step (Finalize now it i d) s)) \<le> length (mockTasks s)"
      by (cases rule: step_finalize_cases [of i s now it d]) simp_all
    then show ?thesis using tasks_step_finalize unfolding Finalize by (simp del: step.simps)
  next
    case (Fire now k r)
    let ?tm = "timers s ! k"
    from Fire assms(2) have k: "?tm \<in> set (timers s)"
      and least: "\<And>tm'. tm' \<in> set (timers s) \<Longrightarrow> due ?tm \<le> due tm'"
      by (auto simp: list_all_iff)
    have edge: "status_edge u (run_body (body ?tm) r u)" if u: "getTask s (target ?tm) = Some u" for u
    proof -
      from u have in_s: "u \<in> set (mockTasks s)" and id: "task_id u = target ?tm"
        by (auto simp: getTask_def dest: find_Some_in)
      from range in_s have st: "status u \<in> {Queued, Processing, Review_ready}" by simp
      show ?thesis
      proof (cases "body ?tm")
        case Start_transcription
        with p in_s k id have "status u \<noteq> Review_ready" unfolding pending_ok_def by (metis callback.distinct(3))
        with st Start_transcription show ?thesis by (auto simp: status_edge_def)
      next
        case Half_way
        then show ?thesis by (simp add: status_edge_def)
      next
        case Ready_for_review
        have "status u \<noteq> Queued"
        proof
          assume "status u = Queued"
          with q u obtain tm' where tm': "tm' \<in> set (timers s)" "target tm' = target ?tm" "body tm' = Start_transcription"
            unfolding queued_ok_def by blast
          from same_target_order [OF t k tm'(1) tm'(2) least [OF tm'(1)]] Ready_for_review tm'(3)
          show False by simp
        qed
        with st Ready_for_review show ?thesis by (auto simp: status_edge_def)
      qed
    qed
    have "tasks_step status_edge (mockTasks s) (mockTasks (step (Fire now k r) s))"
      by (rule tasks_step_fire) (simp_all add: status_edge_def edge [unfolded status_edge_def])
    then show ?thesis unfolding Fire by (simp add: run_timer_def)
  qed
  with range show ?thesis by simp
qed

text \<open>
  The third callback of the example run moves the new task from \<open>processing\<close> to
  \<open>review_ready\<close>.
\<close>

theorem status_moves_witness:
  "reachable example_half
   \<and> enabled (Fire 1729764020000 0 (readings ''10:00:20'')) example_half
   \<and> tasks_step status_edge (mockTasks example_half) (mockTasks example_ready)
   \<and> map status (mockTasks example_half) = [Review_ready, Processing, Processing]
   \<and> map status (mockTasks example_ready) = [Review_ready, Processing, Review_ready]"
proof -
  have r: "reachable example_half" by (rule reachable_examples)
  have e: "enabled (Fire 1729764020000 0 (readings ''10:00:20'')) example_half"
    by (simp add: example_defs)
  from status_moves [OF r e]
  have "tasks_step status_edge (mockTasks example_half) (mockTasks example_ready)"
    unfolding example_ready_def by simp
  moreover have "map status (mockTasks example_half) = [Review_ready, Processing, Processing]"
    "map status (mockTasks example_ready) = [Review_ready, Processing, Review_ready]"
    by (simp_all add: example_defs)
  ultimately show ?thesis using r e by simp
qed

text \<open>
  C2 as stated fails. Along the example run the new task is \<open>queued\<close>, \<open>processing\<close>,
  \<open>processing\<close>, \<open>review_ready\<close>. Whichever state of the specification \<open>processing\<close>
  is read as, that is no path of its machine: the edge out of \<open>QUEUED\<close> leads to
  \<open>TRANSCRIBING\<close>, the edge into \<open>REVIEW_READY\<close> comes from \<open>SUMMARIZING\<close>.
\<close>

theorem status_skips_stage_counterexample:
  "reachable example_ready
   \<and> map (\<lambda>s. status (mockTasks s ! 2)) [example_created, example_started, example_half, example_ready]
       = [Queued, Processing, Processing, Review_ready]
   \<and> \<not> list_ex (\<lambda>p. spec_path (map (as_spec_state p) [Queued, Processing, Processing, Review_ready]))
         all_spec_states"
proof -
  have "map (\<lambda>s. status (mockTasks s ! 2)) [example_created, example_started, example_half, example_ready]
       = [Queued, Processing, Processing, Review_ready]"
    by (simp add: example_defs)
  moreover have "\<not> list_ex (\<lambda>p. spec_path (map (as_spec_state p) [Queued, Processing, Processing, Review_ready]))
         all_spec_states"
    by (simp add: all_spec_states_def spec_edge_def)
  ultimately show ?thesis using reachable_examples(5) by simp
qed

end
